theory Spec2Isabelle
  imports Main "HOL-Library.Sublist"
begin

section \<open>Python values, strings and dictionaries\<close>

text \<open>
  Text is modelled as \<^typ>\<open>string\<close>, read as the UTF-8 encoding of the Python string.
  Every character the program inspects (the delimiter, the characters of the link
  pattern, the line feed) is ASCII, and no byte of a multi-byte UTF-8 sequence is an
  ASCII byte, so splitting and pattern matching agree on both views.
\<close>

definition cross_mark :: string where
  "cross_mark = [CHR 0xE2, CHR 0x9D, CHR 0x8C]"

definition inbox_tray :: string where
  "inbox_tray = [CHR 0xF0, CHR 0x9F, CHR 0x93, CHR 0xA5]"

definition warning_sign :: string where
  "warning_sign = [CHR 0xE2, CHR 0x9A, CHR 0xA0, CHR 0xEF, CHR 0xB8, CHR 0x8F]"

definition red_circle :: string where
  "red_circle = [CHR 0xF0, CHR 0x9F, CHR 0x94, CHR 0xB4]"

text \<open>The values found in the dictionaries the extraction engine reports.\<close>

datatype pyval = PNone | PStr string | PInt int

type_synonym pydict = "(string \<times> pyval) list"

text \<open>Exceptions derived from \<open>Exception\<close>; \<open>exn_str\<close> is \<open>str(e)\<close>.\<close>

datatype exn = KeyError string | OtherError string

fun exn_str :: "exn \<Rightarrow> string" where
  "exn_str (KeyError k) = [CHR 0x27] @ k @ [CHR 0x27]"
| "exn_str (OtherError m) = m"

text \<open>\<open>d.get(k)\<close>, \<open>d.get(k, default)\<close> and \<open>d[k]\<close>.\<close>

definition py_get :: "pydict \<Rightarrow> string \<Rightarrow> pyval" where
  "py_get d k = (case map_of d k of None \<Rightarrow> PNone | Some v \<Rightarrow> v)"

definition py_get_default :: "pydict \<Rightarrow> string \<Rightarrow> pyval \<Rightarrow> pyval" where
  "py_get_default d k dflt = (case map_of d k of None \<Rightarrow> dflt | Some v \<Rightarrow> v)"

definition py_subscript :: "pydict \<Rightarrow> string \<Rightarrow> exn + pyval" where
  "py_subscript d k = (case map_of d k of None \<Rightarrow> Inl (KeyError k) | Some v \<Rightarrow> Inr v)"

text \<open>Decimal rendering of integers, as \<open>str\<close> and f-strings produce it.\<close>

definition digit_char :: "nat \<Rightarrow> char" where
  "digit_char d = char_of (48 + d)"

fun show_nat :: "nat \<Rightarrow> string" where
  "show_nat n = (if n < 10 then [digit_char n] else show_nat (n div 10) @ [digit_char (n mod 10)])"

declare show_nat.simps [simp del]

definition show_int :: "int \<Rightarrow> string" where
  "show_int i = (if i < 0 then CHR ''-'' # show_nat (nat (- i)) else show_nat (nat i))"

fun py_str :: "pyval \<Rightarrow> string" where
  "py_str PNone = ''None''"
| "py_str (PStr s) = s"
| "py_str (PInt i) = show_int i"

text \<open>
  \<open>s.split(sep)\<close> for a one-character separator: the pieces between the occurrences
  of \<open>sep\<close>, empty pieces included. The result is never empty, so the first branch of
  the \<open>case\<close> is never taken.
\<close>

fun str_split :: "char \<Rightarrow> string \<Rightarrow> string list" where
  "str_split sep [] = [[]]"
| "str_split sep (c # cs) =
     (if c = sep then [] # str_split sep cs
      else (case str_split sep cs of
              [] \<Rightarrow> [[c]]
            | p # ps \<Rightarrow> (c # p) # ps))"

section \<open>Observable actions\<close>

text \<open>
  A handler's behaviour is the sequence of calls it makes on the messaging client, on
  the extraction engine, on the network and on standard output. The client calls
  themselves are taken to succeed; \<open>send_video\<close> is the one call the program guards.
\<close>

datatype button = InlineKeyboardButton (button_text: string) (button_data: string)

datatype action =
    ReplyTo string
  | SendMessage string "button list option"
  | AnswerCallback string
  | SendVideo string
  | EngineQuery string
  | EngineDownload string string
  | HttpGet string
  | Print string
  | StopPolling

text \<open>
  What the engine reports for a URL: \<open>None\<close> or a dictionary whose \<open>formats\<close> entry,
  when present, is a list of format dictionaries, and whose \<open>title\<close> entry may be
  missing.
\<close>

record info =
  formats :: "pydict list option"
  title :: "pyval option"

text \<open>
  The surroundings of one handler run: the engine's answers, the state of local storage
  after the download, and the outcome of opening and uploading a file.
\<close>

record world =
  extract_info :: "string \<Rightarrow> exn + info option"
  download :: "string \<Rightarrow> string \<Rightarrow> exn + string"
  path_exists :: "string \<Rightarrow> bool"
  upload :: "string \<Rightarrow> exn + unit"

section \<open>The link classifier\<close>

text \<open>
  The pattern language of the one regular expression in the program. \<open>rx_match r s\<close>
  lists, in the order a backtracking matcher tries them, the remainders of \<open>s\<close> after
  each way \<open>r\<close> can match a prefix of \<open>s\<close>. \<open>Dot\<close> is \<open>.\<close>, any character but a line
  feed; \<open>Opt\<close> is \<open>?\<close> and \<open>Plus\<close> is \<open>+\<close>, both greedy.
\<close>

datatype rx = Lit string | Dot | Seq rx rx | Alt rx rx | Opt rx | Plus rx

definition newline :: char where
  "newline = CHR 0x0A"

text \<open>
  One or more consuming iterations of a matcher \<open>m\<close>; the fuel is the length of the
  input, which bounds their number.
\<close>

fun rx_plus :: "(string \<Rightarrow> string list) \<Rightarrow> nat \<Rightarrow> string \<Rightarrow> string list" where
  "rx_plus m 0 s = []"
| "rx_plus m (Suc n) s =
     concat (map (\<lambda>t. rx_plus m n t @ [t]) (filter (\<lambda>t. length t < length s) (m s)))"

primrec rx_match :: "rx \<Rightarrow> string \<Rightarrow> string list" where
  "rx_match (Lit l) s = (if prefix l s then [drop (length l) s] else [])"
| "rx_match Dot s = (case s of [] \<Rightarrow> [] | c # cs \<Rightarrow> if c \<noteq> newline then [cs] else [])"
| "rx_match (Seq a b) s = concat (map (rx_match b) (rx_match a s))"
| "rx_match (Alt a b) s = rx_match a s @ rx_match b s"
| "rx_match (Opt a) s = rx_match a s @ [s]"
| "rx_match (Plus a) s =
     rx_plus (rx_match a) (length s) s @ filter (\<lambda>t. t = s) (rx_match a s)"

text \<open>\<open>re.match\<close>: the text matched at the start of \<open>s\<close>, or \<open>None\<close>.\<close>

definition re_match :: "rx \<Rightarrow> string \<Rightarrow> string option" where
  "re_match r s =
     (case rx_match r s of [] \<Rightarrow> None | t # _ \<Rightarrow> Some (take (length s - length t) s))"

text \<open>The pattern \<^verbatim>\<open>(https?://)?(www\.)?(youtube\.com|youtu\.?be)/.+\<close> of the source.\<close>

definition youtube_regex :: rx where
  "youtube_regex =
     Seq (Opt (Seq (Lit ''http'') (Seq (Opt (Lit ''s'')) (Lit ''://''))))
    (Seq (Opt (Seq (Lit ''www'') (Lit ''.'')))
    (Seq (Alt (Seq (Lit ''youtube'') (Seq (Lit ''.'') (Lit ''com'')))
              (Seq (Lit ''youtu'') (Seq (Opt (Lit ''.'')) (Lit ''be''))))
    (Seq (Lit ''/'') (Plus Dot))))"

definition is_youtube_link :: "string \<Rightarrow> string option" where
  "is_youtube_link txt = re_match youtube_regex txt"

text \<open>The truth value Python gives the result where the handler filter tests it.\<close>

definition truthy :: "'a option \<Rightarrow> bool" where
  "truthy r = (r \<noteq> None)"

section \<open>The format resolver\<close>

definition valid_formats :: "pydict list \<Rightarrow> pydict list" where
  "valid_formats fs =
     filter (\<lambda>f. py_get f ''vcodec'' \<noteq> PStr ''none'' \<and> py_get f ''acodec'' \<noteq> PStr ''none'') fs"

text \<open>
  \<open>extract_formats\<close> returns \<open>None\<close> for the pair \<open>(None, None)\<close>. When the engine
  reports \<open>None\<close>, \<open>info.get\<close> raises an \<open>AttributeError\<close> inside the \<open>try\<close>.
\<close>

definition extract_formats :: "world \<Rightarrow> string \<Rightarrow> action list \<times> (pydict list \<times> pyval) option" where
  "extract_formats w url =
     (case extract_info w url of
        Inl e \<Rightarrow> ([EngineQuery url, Print (''Error extracting formats: '' @ exn_str e)], None)
      | Inr None \<Rightarrow>
          ([EngineQuery url,
            Print (''Error extracting formats: '' @ [CHR 0x27] @ ''NoneType'' @ [CHR 0x27]
                   @ '' object has no attribute '' @ [CHR 0x27] @ ''get'' @ [CHR 0x27])], None)
      | Inr (Some i) \<Rightarrow>
          ([EngineQuery url],
           Some (valid_formats (case formats i of None \<Rightarrow> [] | Some fs \<Rightarrow> fs),
                 case title i of None \<Rightarrow> PStr ''video'' | Some t \<Rightarrow> t)))"

section \<open>The selection prompt\<close>

text \<open>The token attached to a choice: \<open>f"{format_id}|{url}"\<close>.\<close>

definition token :: "string \<Rightarrow> string \<Rightarrow> string" where
  "token format_id url = format_id @ ''|'' @ url"

definition btn_text :: "pydict \<Rightarrow> string" where
  "btn_text fmt =
     (let quality = py_get_default fmt ''height'' (PStr ''NA'');
          ext = py_get_default fmt ''ext'' (PStr [])
      in py_str quality @ ''p ('' @ py_str ext @ '')'')"

definition callback_data :: "pydict \<Rightarrow> string \<Rightarrow> exn + string" where
  "callback_data fmt url =
     (case py_subscript fmt ''format_id'' of
        Inl e \<Rightarrow> Inl e
      | Inr format_id \<Rightarrow> Inr (token (py_str format_id) url))"

text \<open>
  The loop over \<open>formats[:max_num_formats]\<close>, adding one button per variant to the
  keyboard; a variant without \<open>format_id\<close> ends it with \<open>KeyError\<close>.
\<close>

fun add_buttons :: "string \<Rightarrow> pydict list \<Rightarrow> button list \<Rightarrow> exn + button list" where
  "add_buttons url [] keyboard = Inr keyboard"
| "add_buttons url (fmt # rest) keyboard =
     (case callback_data fmt url of
        Inl e \<Rightarrow> Inl e
      | Inr d \<Rightarrow> add_buttons url rest (keyboard @ [InlineKeyboardButton (btn_text fmt) d]))"

definition max_num_formats :: nat where
  "max_num_formats = 5"

definition prompt_text :: "pyval \<Rightarrow> string" where
  "prompt_text ttl = ''Select quality for '' @ [CHR 0x27] @ py_str ttl @ [CHR 0x27] @ '':''"

definition extraction_failed :: string where
  "extraction_failed = cross_mark @ '' Failed to extract video formats. Please try again.''"

text \<open>
  \<open>receive_video_link\<close> returns the actions performed and the exception that left the
  handler, if any. \<open>if not formats\<close> holds for \<open>None\<close> and for the empty list.
\<close>

definition receive_video_link :: "world \<Rightarrow> string \<Rightarrow> action list \<times> exn option" where
  "receive_video_link w url =
     (let (tr, r) = extract_formats w url;
          started = ReplyTo ''Processing your YouTube link, please wait...'' # tr
      in case r of
           None \<Rightarrow> (started @ [ReplyTo extraction_failed], None)
         | Some (fmts, ttl) \<Rightarrow>
             if fmts = [] then (started @ [ReplyTo extraction_failed], None)
             else
               (case add_buttons url (take max_num_formats fmts) [] of
                  Inl e \<Rightarrow> (started, Some e)
                | Inr keyboard \<Rightarrow>
                    (started @ [SendMessage (prompt_text ttl) (Some keyboard)], None)))"

section \<open>The callback handler\<close>

definition download_youtube_video :: "world \<Rightarrow> string \<Rightarrow> string \<Rightarrow> action list \<times> string option" where
  "download_youtube_video w url format_id =
     (case download w url format_id of
        Inr video_path \<Rightarrow> ([EngineDownload url format_id], Some video_path)
      | Inl e \<Rightarrow>
          ([EngineDownload url format_id, Print (''Error downloading video: '' @ exn_str e)],
           None))"

definition download_failed :: string where
  "download_failed = cross_mark @ '' Failed to download the video.''"

text \<open>
  \<open>callback_query\<close> returns the actions performed and the exception that left the
  handler, if any. \<open>video_path and os.path.exists(video_path)\<close> fails for \<open>None\<close>, for
  the empty path and for a path that is not on storage.
\<close>

definition callback_query :: "world \<Rightarrow> string \<Rightarrow> action list \<times> exn option" where
  "callback_query w call_data =
     (let data = str_split (CHR ''|'') call_data in
      if length data \<noteq> 2 then ([AnswerCallback ''Invalid selection.''], None)
      else
        let format_id = data ! 0;
            url = data ! 1;
            (tr, video_path) = download_youtube_video w url format_id;
            started = [AnswerCallback ''Downloading video...'',
                       SendMessage (inbox_tray @ '' Downloading video, please wait...'') None] @ tr
        in case video_path of
             None \<Rightarrow> (started @ [SendMessage download_failed None], None)
           | Some p \<Rightarrow>
               if p \<noteq> [] \<and> path_exists w p then
                 (case upload w p of
                    Inr _ \<Rightarrow> (started @ [SendVideo p], None)
                  | Inl e \<Rightarrow>
                      (started @ [SendMessage (cross_mark @ '' Failed to send video: '' @ exn_str e) None],
                       None))
               else (started @ [SendMessage download_failed None], None))"

section \<open>Startup\<close>

text \<open>
  The outcome of \<open>requests.get\<close> on the messaging API, and the environment the module
  is loaded in: the value of \<open>BOT_TOKEN\<close> after \<open>load_dotenv\<close>, what the constructor
  \<open>telebot.TeleBot\<close> does with a token (it makes no request, and raises when it refuses
  the token), and that outcome.
\<close>

datatype get_outcome = Responded | RaisedConnectionError | RaisedOther exn

record environ =
  bot_token :: "string option"
  new_bot :: "string \<Rightarrow> exn + unit"
  api_get :: get_outcome

text \<open>
  How the module ends its loading: \<open>sys.exit\<close> with a code, or the handlers registered
  and the process ready to poll. An exception nobody catches ends the process with
  exit code 1.
\<close>

datatype process = Exited int | Started

text \<open>\<open>check_internet\<close> returns a truth value (\<open>Inr\<close>) or leaves through \<open>sys.exit\<close> (\<open>Inl\<close>).\<close>

definition check_internet :: "get_outcome \<Rightarrow> action list \<times> (int + bool)" where
  "check_internet g =
     (case g of
        Responded \<Rightarrow> ([HttpGet ''https://api.telegram.org''], Inr True)
      | RaisedConnectionError \<Rightarrow>
          ([HttpGet ''https://api.telegram.org'',
            Print (cross_mark @ '' ConnectionError: Could not connect to https://api.telegram.org'')],
           Inr False)
      | RaisedOther e \<Rightarrow>
          ([HttpGet ''https://api.telegram.org'',
            Print (red_circle @ '' Unexpected error: '' @ exn_str e)],
           Inl 2))"

definition missing_token :: "action list \<times> process" where
  "missing_token =
     ([Print (cross_mark @ '' BOT_TOKEN is missing! Check your .env file.'')], Exited 1)"

text \<open>
  \<open>if not BOT_TOKEN\<close> holds for an unset and for an empty variable. The constructor
  runs next; its exception is not caught.
\<close>

definition startup :: "environ \<Rightarrow> action list \<times> process" where
  "startup env =
     (case bot_token env of
        None \<Rightarrow> missing_token
      | Some t \<Rightarrow>
          if t = [] then missing_token
          else
            (case new_bot env t of
               Inl e \<Rightarrow> ([], Exited 1)
             | Inr _ \<Rightarrow>
                 (case check_internet (api_get env) of
                    (tr, Inl code) \<Rightarrow> (tr, Exited code)
                  | (tr, Inr ok) \<Rightarrow>
                      if \<not> ok then
                        (tr @ [Print (warning_sign
                                 @ '' No internet connection! Check your network and restart the bot.'')],
                         Exited 1)
                      else (tr, Started))))"

section \<open>Dispatch of text messages\<close>

text \<open>
  The three message handlers in the order the module registers them; the client runs
  the first one whose filter accepts the message. \<open>command_of\<close> is the client's reading
  of a command at the start of the text, a parameter here. The handler of \<open>/start\<close>
  and the handler of \<open>/stop\<close> take no other input.
\<close>

definition send_welcome :: "action list \<times> exn option" where
  "send_welcome = ([ReplyTo ''Hello! Send me a YouTube link to download a video.''], None)"

definition stop_bot :: "action list \<times> exn option" where
  "stop_bot = ([ReplyTo ''Bot is stopping.'', StopPolling], None)"

definition handle_message ::
  "(string \<Rightarrow> string option) \<Rightarrow> world \<Rightarrow> string \<Rightarrow> action list \<times> exn option" where
  "handle_message command_of w txt =
     (if command_of txt = Some ''start'' then send_welcome
      else if truthy (is_youtube_link txt) then receive_video_link w txt
      else if command_of txt = Some ''stop'' then stop_bot
      else ([], None))"

section \<open>The specification's wording\<close>

text \<open>
  A variant carries an audio (video) component when an audio (video) codec is present:
  the field is there and names a codec.
\<close>

definition carries_audio :: "pydict \<Rightarrow> bool" where
  "carries_audio f = (case map_of f ''acodec'' of Some (PStr c) \<Rightarrow> c \<noteq> ''none'' | _ \<Rightarrow> False)"

definition carries_video :: "pydict \<Rightarrow> bool" where
  "carries_video f = (case map_of f ''vcodec'' of Some (PStr c) \<Rightarrow> c \<noteq> ''none'' | _ \<Rightarrow> False)"

text \<open>
  A supported video-platform link as the specification describes it: an optional scheme,
  an optional \<open>www.\<close>, the long or the short-link hostname, a slash and at least one
  character.
\<close>

definition spec_video_link :: "string \<Rightarrow> bool" where
  "spec_video_link txt =
     (\<exists>scheme \<in> {[], ''http://'', ''https://''}. \<exists>www \<in> {[], ''www.''}.
      \<exists>host \<in> {''youtube.com'', ''youtu.be''}. \<exists>c rest.
        txt = scheme @ www @ host @ ''/'' @ c # rest)"

text \<open>
  The links the pattern accepts: the short hostname may lose its dot, and the character
  after the slash is any character but a line feed.
\<close>

definition permissive_video_link :: "string \<Rightarrow> bool" where
  "permissive_video_link txt =
     (\<exists>scheme \<in> {[], ''http://'', ''https://''}. \<exists>www \<in> {[], ''www.''}.
      \<exists>host \<in> {''youtube.com'', ''youtu.be'', ''youtube''}. \<exists>c rest.
        c \<noteq> newline \<and> txt = scheme @ www @ host @ ''/'' @ c # rest)"

text \<open>The calls on the extraction engine among the actions.\<close>

fun is_engine_call :: "action \<Rightarrow> bool" where
  "is_engine_call (EngineQuery _) = True"
| "is_engine_call (EngineDownload _ _) = True"
| "is_engine_call _ = False"

section \<open>Sample surroundings\<close>

text \<open>An engine that fails on every request, and storage that holds nothing.\<close>

definition failing_world :: world where
  "failing_world =
     \<lparr>extract_info = (\<lambda>_. Inl (OtherError ''unsupported URL'')),
      download = (\<lambda>_ _. Inl (OtherError ''unreachable'')),
      path_exists = (\<lambda>_. False),
      upload = (\<lambda>_. Inr ())\<rparr>"

text \<open>
  An engine that reports five variants for the title \<open>Demo\<close>, one of them audio-only, one
  video-only and one without a height, and that downloads to \<open>downloads/Demo.mp4\<close>.
\<close>

definition demo_info :: info where
  "demo_info =
     \<lparr>formats = Some
        [[(''format_id'', PStr ''18''), (''ext'', PStr ''mp4''), (''height'', PInt 360),
          (''vcodec'', PStr ''avc1''), (''acodec'', PStr ''mp4a'')],
         [(''format_id'', PStr ''140''), (''ext'', PStr ''m4a''),
          (''vcodec'', PStr ''none''), (''acodec'', PStr ''mp4a'')],
         [(''format_id'', PStr ''22''), (''ext'', PStr ''mp4''), (''height'', PInt 720),
          (''vcodec'', PStr ''avc1''), (''acodec'', PStr ''mp4a'')],
         [(''format_id'', PStr ''137''), (''ext'', PStr ''mp4''), (''height'', PInt 1080),
          (''vcodec'', PStr ''avc1''), (''acodec'', PStr ''none'')],
         [(''format_id'', PStr ''43''), (''ext'', PStr ''webm''),
          (''vcodec'', PStr ''vp8''), (''acodec'', PStr ''vorbis'')]],
      title = Some (PStr ''Demo'')\<rparr>"

definition demo_world :: world where
  "demo_world =
     \<lparr>extract_info = (\<lambda>_. Inr (Some demo_info)),
      download = (\<lambda>_ _. Inr ''downloads/Demo.mp4''),
      path_exists = (\<lambda>p. p = ''downloads/Demo.mp4''),
      upload = (\<lambda>_. Inr ())\<rparr>"

text \<open>An engine that reports one variant, with no \<open>vcodec\<close> entry and no title.\<close>

definition codecless_world :: world where
  "codecless_world =
     \<lparr>extract_info =
        (\<lambda>_. Inr (Some \<lparr>formats = Some [[(''format_id'', PStr ''18''), (''acodec'', PStr ''mp4a'')]],
                          title = None\<rparr>)),
      download = (\<lambda>_ _. Inr []),
      path_exists = (\<lambda>_. False),
      upload = (\<lambda>_. Inr ())\<rparr>"

text \<open>An engine that reports one combined variant whose height is \<open>None\<close>.\<close>

definition unknown_height_world :: world where
  "unknown_height_world =
     \<lparr>extract_info =
        (\<lambda>_. Inr (Some \<lparr>formats = Some [[(''format_id'', PStr ''22''), (''ext'', PStr ''mp4''),
                                           (''height'', PNone),
                                           (''vcodec'', PStr ''avc1''), (''acodec'', PStr ''mp4a'')]],
                          title = Some (PStr ''Demo'')\<rparr>)),
      download = (\<lambda>_ _. Inr ''downloads/Demo.mp4''),
      path_exists = (\<lambda>_. True),
      upload = (\<lambda>_. Inr ())\<rparr>"

text \<open>A constructor that refuses a token without a colon, and a reader of commands.\<close>

definition colon_check :: "string \<Rightarrow> exn + unit" where
  "colon_check t =
     (if CHR '':'' \<in> set t then Inr () else Inl (OtherError ''Token must contain a colon''))"

definition slash_command :: "string \<Rightarrow> string option" where
  "slash_command txt =
     (case txt of
        [] \<Rightarrow> None
      | c # cs \<Rightarrow>
          if c = CHR ''/'' then Some (takeWhile (\<lambda>x. x \<noteq> CHR '' '' \<and> x \<noteq> CHR ''@'') cs)
          else None)"

text \<open>An engine that reports a single audio-only variant.\<close>

definition audio_only_world :: world where
  "audio_only_world =
     \<lparr>extract_info =
        (\<lambda>_. Inr (Some \<lparr>formats = Some [[(''format_id'', PStr ''140''), (''ext'', PStr ''m4a''),
                                           (''vcodec'', PStr ''none''), (''acodec'', PStr ''mp4a'')]],
                          title = Some (PStr ''Demo'')\<rparr>)),
      download = (\<lambda>_ _. Inr ''downloads/Demo.m4a''),
      path_exists = (\<lambda>_. True),
      upload = (\<lambda>_. Inr ())\<rparr>"

section \<open>Facts about splitting\<close>

lemma str_split_not_Nil: "str_split sep s \<noteq> []"
  by (induction s) (auto split: list.splits)

lemma length_str_split: "length (str_split sep s) = Suc (count_list s sep)"
proof (induction s)
  case Nil
  show ?case by simp
next
  case (Cons c cs)
  obtain p ps where "str_split sep cs = p # ps"
    using str_split_not_Nil [of sep cs] by (cases "str_split sep cs") auto
  with Cons show ?case by auto
qed

lemma str_split_no_sep: "sep \<notin> set s \<Longrightarrow> str_split sep s = [s]"
  by (induction s) auto

lemma str_split_append:
  "sep \<notin> set a \<Longrightarrow> str_split sep (a @ sep # b) = a # str_split sep b"
  by (induction a) auto

lemma two_parts:
  assumes "count_list call_data (CHR ''|'') = 1"
  shows "str_split (CHR ''|'') call_data
           = [str_split (CHR ''|'') call_data ! 0, str_split (CHR ''|'') call_data ! 1]"
proof -
  have "length (str_split (CHR ''|'') call_data) = 2"
    using assms by (simp add: length_str_split)
  then show ?thesis
    by (cases "str_split (CHR ''|'') call_data" rule: list.exhaust)
       (auto simp: length_Suc_conv)
qed

section \<open>Facts about the pattern matcher\<close>

lemma mem_rx_Lit: "t \<in> set (rx_match (Lit l) s) \<longleftrightarrow> s = l @ t"
  by (auto simp: prefix_def)

lemma mem_rx_Seq:
  "t \<in> set (rx_match (Seq a b) s) \<longleftrightarrow> (\<exists>u. u \<in> set (rx_match a s) \<and> t \<in> set (rx_match b u))"
  by auto

lemma mem_rx_Alt:
  "t \<in> set (rx_match (Alt a b) s) \<longleftrightarrow> t \<in> set (rx_match a s) \<or> t \<in> set (rx_match b s)"
  by simp

lemma mem_rx_Opt: "t \<in> set (rx_match (Opt a) s) \<longleftrightarrow> t \<in> set (rx_match a s) \<or> t = s"
  by auto

lemmas mem_rx = mem_rx_Lit mem_rx_Seq mem_rx_Alt mem_rx_Opt

lemma rx_Seq_not_Nil:
  "rx_match (Seq a b) s \<noteq> [] \<longleftrightarrow> (\<exists>u. u \<in> set (rx_match a s) \<and> rx_match b u \<noteq> [])"
  by auto

lemma rx_Seq4_not_Nil:
  "rx_match (Seq a (Seq b (Seq c d))) s \<noteq> [] \<longleftrightarrow>
     (\<exists>u1. u1 \<in> set (rx_match a s) \<and> (\<exists>u2. u2 \<in> set (rx_match b u1) \<and>
        (\<exists>u3. u3 \<in> set (rx_match c u2) \<and> rx_match d u3 \<noteq> [])))"
  by (simp only: rx_Seq_not_Nil)

lemma rx_plus_dot_not_Nil:
  "rx_match (Plus Dot) s \<noteq> [] \<longleftrightarrow> (\<exists>c rest. s = c # rest \<and> c \<noteq> newline)"
  by (cases s) auto

lemma truthy_re_match: "truthy (re_match r s) \<longleftrightarrow> rx_match r s \<noteq> []"
  by (simp add: truthy_def re_match_def split: list.splits)

text \<open>The four parts of the pattern, one after the other.\<close>

lemma scheme_part:
  "t \<in> set (rx_match (Opt (Seq (Lit ''http'') (Seq (Opt (Lit ''s'')) (Lit ''://'')))) s)
   \<longleftrightarrow> (\<exists>scheme \<in> {[], ''http://'', ''https://''}. s = scheme @ t)"
  by (simp only: mem_rx) auto

lemma www_part:
  "t \<in> set (rx_match (Opt (Seq (Lit ''www'') (Lit ''.''))) s)
   \<longleftrightarrow> (\<exists>www \<in> {[], ''www.''}. s = www @ t)"
  by (simp only: mem_rx) auto

lemma host_part:
  "t \<in> set (rx_match (Alt (Seq (Lit ''youtube'') (Seq (Lit ''.'') (Lit ''com'')))
              (Seq (Lit ''youtu'') (Seq (Opt (Lit ''.'')) (Lit ''be'')))) s)
   \<longleftrightarrow> (\<exists>host \<in> {''youtube.com'', ''youtu.be'', ''youtube''}. s = host @ t)"
  by (simp only: mem_rx) auto

lemma slash_part:
  "rx_match (Seq (Lit ''/'') (Plus Dot)) s \<noteq> []
   \<longleftrightarrow> (\<exists>c rest. c \<noteq> newline \<and> s = ''/'' @ c # rest)"
  by (simp only: rx_Seq_not_Nil rx_plus_dot_not_Nil mem_rx) auto

lemma nested_parts:
  "(\<exists>u1. (\<exists>a\<in>S. txt = a @ u1) \<and> (\<exists>u2. (\<exists>b\<in>W. u1 = b @ u2) \<and>
      (\<exists>u3. (\<exists>h\<in>H. u2 = h @ u3) \<and> (\<exists>c rest. P c \<and> u3 = l @ c # rest)))) \<longleftrightarrow>
   (\<exists>a\<in>S. \<exists>b\<in>W. \<exists>h\<in>H. \<exists>c rest. P c \<and> txt = a @ b @ h @ l @ c # rest)"
  by blast

lemma truthy_is_youtube_link:
  "truthy (is_youtube_link txt) \<longleftrightarrow> permissive_video_link txt"
  by (simp only: is_youtube_link_def truthy_re_match youtube_regex_def rx_Seq4_not_Nil
        scheme_part www_part host_part slash_part nested_parts permissive_video_link_def)

section \<open>Facts about the resolver and the prompt\<close>

lemma py_get_ne_none: "py_get f k \<noteq> PStr ''none'' \<longleftrightarrow> map_of f k \<noteq> Some (PStr ''none'')"
  by (simp add: py_get_def split: option.splits)

lemma mem_valid_formats:
  "f \<in> set (valid_formats fs) \<longleftrightarrow>
     f \<in> set fs \<and> map_of f ''vcodec'' \<noteq> Some (PStr ''none'')
              \<and> map_of f ''acodec'' \<noteq> Some (PStr ''none'')"
  by (simp add: valid_formats_def py_get_ne_none)

lemma subseq_valid_formats: "subseq (valid_formats fs) fs"
  by (simp add: valid_formats_def)

lemma extract_formats_returned:
  "extract_info w url = Inr (Some i) \<Longrightarrow>
   extract_formats w url =
     ([EngineQuery url],
      Some (valid_formats (case formats i of None \<Rightarrow> [] | Some l \<Rightarrow> l),
            case title i of None \<Rightarrow> PStr ''video'' | Some t \<Rightarrow> t))"
  by (simp add: extract_formats_def)

text \<open>The loop adds one button per variant, in the order of the variants.\<close>

lemma add_buttons_Inr:
  "add_buttons url fmts kb0 = Inr kb \<Longrightarrow>
   \<exists>added. kb = kb0 @ added \<and> map button_text added = map btn_text fmts
          \<and> map (\<lambda>b. Inr (button_data b)) added = map (\<lambda>f. callback_data f url) fmts"
proof (induction fmts arbitrary: kb0)
  case Nil
  then show ?case by simp
next
  case (Cons fmt rest)
  from Cons.prems obtain d where d: "callback_data fmt url = Inr d"
    and r: "add_buttons url rest (kb0 @ [InlineKeyboardButton (btn_text fmt) d]) = Inr kb"
    by (auto split: sum.splits)
  from Cons.IH [OF r] obtain added where
    "kb = (kb0 @ [InlineKeyboardButton (btn_text fmt) d]) @ added"
    "map button_text added = map btn_text rest"
    "map (\<lambda>b. Inr (button_data b)) added = map (\<lambda>f. callback_data f url) rest"
    by blast
  with d show ?case
    by (intro exI [of _ "InlineKeyboardButton (btn_text fmt) d # added"]) simp
qed

text \<open>A prompt with a keyboard is sent only after the engine answered and the loop ended.\<close>

lemma prompt_sent:
  assumes "SendMessage txt (Some kb) \<in> set (fst (receive_video_link w url))"
  shows "\<exists>i. extract_info w url = Inr (Some i)
           \<and> txt = prompt_text (case title i of None \<Rightarrow> PStr ''video'' | Some t \<Rightarrow> t)
           \<and> add_buttons url
                (take max_num_formats
                   (valid_formats (case formats i of None \<Rightarrow> [] | Some l \<Rightarrow> l))) []
              = Inr kb"
proof (cases "extract_info w url")
  case (Inl e)
  with assms show ?thesis
    by (simp add: receive_video_link_def extract_formats_def)
next
  case (Inr r)
  show ?thesis
  proof (cases r)
    case None
    with Inr assms show ?thesis
      by (simp add: receive_video_link_def extract_formats_def)
  next
    case (Some i)
    with Inr have q: "extract_info w url = Inr (Some i)" by simp
    from assms show ?thesis
      by (auto simp: receive_video_link_def extract_formats_returned [OF q] q Let_def
               split: if_splits sum.splits)
  qed
qed

text \<open>The handler's run on the sample engine.\<close>

lemma demo_valid_formats:
  "valid_formats (case formats demo_info of None \<Rightarrow> [] | Some l \<Rightarrow> l) =
     [[(''format_id'', PStr ''18''), (''ext'', PStr ''mp4''), (''height'', PInt 360),
       (''vcodec'', PStr ''avc1''), (''acodec'', PStr ''mp4a'')],
      [(''format_id'', PStr ''22''), (''ext'', PStr ''mp4''), (''height'', PInt 720),
       (''vcodec'', PStr ''avc1''), (''acodec'', PStr ''mp4a'')],
      [(''format_id'', PStr ''43''), (''ext'', PStr ''webm''),
       (''vcodec'', PStr ''vp8''), (''acodec'', PStr ''vorbis'')]]"
  by (simp add: demo_info_def valid_formats_def py_get_def)

lemma show_int_360: "show_int 360 = ''360''"
  by code_simp

lemma show_int_720: "show_int 720 = ''720''"
  by code_simp

lemma demo_query: "extract_info demo_world ''https://youtu.be/abc123'' = Inr (Some demo_info)"
  by (simp add: demo_world_def)

lemma demo_prompt:
  "receive_video_link demo_world ''https://youtu.be/abc123'' =
     ([ReplyTo ''Processing your YouTube link, please wait...'',
       EngineQuery ''https://youtu.be/abc123'',
       SendMessage (''Select quality for '' @ [CHR 0x27] @ ''Demo'' @ [CHR 0x27] @ '':'')
         (Some [InlineKeyboardButton ''360p (mp4)'' ''18|https://youtu.be/abc123'',
                InlineKeyboardButton ''720p (mp4)'' ''22|https://youtu.be/abc123'',
                InlineKeyboardButton ''NAp (webm)'' ''43|https://youtu.be/abc123''])],
      None)"
proof -
  have t: "title demo_info = Some (PStr ''Demo'')"
    by (simp add: demo_info_def)
  show ?thesis
    by (simp add: receive_video_link_def extract_formats_returned [OF demo_query]
          demo_valid_formats t max_num_formats_def callback_data_def py_subscript_def
          token_def btn_text_def py_get_default_def show_int_360 show_int_720 prompt_text_def)
qed

lemma demo_prompt_sent:
  "SendMessage (''Select quality for '' @ [CHR 0x27] @ ''Demo'' @ [CHR 0x27] @ '':'')
     (Some [InlineKeyboardButton ''360p (mp4)'' ''18|https://youtu.be/abc123'',
            InlineKeyboardButton ''720p (mp4)'' ''22|https://youtu.be/abc123'',
            InlineKeyboardButton ''NAp (webm)'' ''43|https://youtu.be/abc123''])
   \<in> set (fst (receive_video_link demo_world ''https://youtu.be/abc123''))"
  by (simp add: demo_prompt)

text \<open>The label of a variant with an integer height, and of one with no height entry.\<close>

lemma btn_text_height:
  "map_of f ''height'' = Some (PInt h) \<Longrightarrow> map_of f ''ext'' = Some (PStr e)
   \<Longrightarrow> btn_text f = show_int h @ ''p ('' @ e @ '')''"
  by (simp add: btn_text_def py_get_default_def)

lemma btn_text_no_height:
  "map_of f ''height'' = None \<Longrightarrow> map_of f ''ext'' = Some (PStr e)
   \<Longrightarrow> btn_text f = ''NAp ('' @ e @ '')''"
  by (simp add: btn_text_def py_get_default_def)

section \<open>Facts about the callback handler\<close>

text \<open>The handler on a payload that splits into exactly two parts.\<close>

lemma callback_query_two:
  assumes "str_split (CHR ''|'') call_data = [format_id, url]"
  shows "callback_query w call_data =
     (let started = [AnswerCallback ''Downloading video...'',
                     SendMessage (inbox_tray @ '' Downloading video, please wait...'') None,
                     EngineDownload url format_id]
      in case download w url format_id of
           Inl e \<Rightarrow>
             (started @ [Print (''Error downloading video: '' @ exn_str e),
                         SendMessage download_failed None], None)
         | Inr p \<Rightarrow>
             if p \<noteq> [] \<and> path_exists w p then
               (case upload w p of
                  Inr _ \<Rightarrow> (started @ [SendVideo p], None)
                | Inl e \<Rightarrow>
                    (started
                     @ [SendMessage (cross_mark @ '' Failed to send video: '' @ exn_str e) None],
                     None))
             else (started @ [SendMessage download_failed None], None))"
  by (simp add: callback_query_def assms download_youtube_video_def Let_def split: sum.splits)

section \<open>Selection tokens\<close>

text \<open>
  C1. Token round trip: for every variant whose identifier is \<open>format_id\<close> and every
  source URL, neither containing the delimiter \<open>|\<close>, the token the prompt attaches to
  the choice is the identifier, \<open>|\<close> and the URL; splitting it on \<open>|\<close> gives back
  exactly the identifier and the URL, and the callback handler, which splits it that
  way, asks the engine to download this identifier from this URL.
\<close>

theorem token_round_trip:
  assumes "map_of fmt ''format_id'' = Some (PStr format_id)"
    and "CHR ''|'' \<notin> set format_id" and "CHR ''|'' \<notin> set url"
  shows "\<exists>d. callback_data fmt url = Inr d
           \<and> d = format_id @ ''|'' @ url
           \<and> add_buttons url [fmt] [] = Inr [InlineKeyboardButton (btn_text fmt) d]
           \<and> str_split (CHR ''|'') d = [format_id, url]
           \<and> EngineDownload url format_id \<in> set (fst (callback_query w d))"
proof -
  have cd: "callback_data fmt url = Inr (format_id @ ''|'' @ url)"
    using assms(1) by (simp add: callback_data_def py_subscript_def token_def)
  have sp: "str_split (CHR ''|'') (format_id @ ''|'' @ url) = [format_id, url]"
    using assms(2,3) by (simp add: str_split_append str_split_no_sep)
  have "EngineDownload url format_id
          \<in> set (fst (callback_query w (format_id @ ''|'' @ url)))"
    unfolding callback_query_two [OF sp]
    by (simp add: Let_def split: sum.splits)
  with cd sp show ?thesis by simp
qed

theorem token_round_trip_witness:
  "map_of [(''format_id'', PStr ''22''), (''ext'', PStr ''mp4'')] ''format_id'' = Some (PStr ''22'')
   \<and> CHR ''|'' \<notin> set ''22'' \<and> CHR ''|'' \<notin> set ''https://youtu.be/abc123''
   \<and> callback_data [(''format_id'', PStr ''22''), (''ext'', PStr ''mp4'')] ''https://youtu.be/abc123''
       = Inr ''22|https://youtu.be/abc123''
   \<and> str_split (CHR ''|'') ''22|https://youtu.be/abc123'' = [''22'', ''https://youtu.be/abc123'']
   \<and> EngineDownload ''https://youtu.be/abc123'' ''22''
        \<in> set (fst (callback_query demo_world ''22|https://youtu.be/abc123''))"
  using token_round_trip [of "[(''format_id'', PStr ''22''), (''ext'', PStr ''mp4'')]" "''22''"
          "''https://youtu.be/abc123''" demo_world]
  by simp

text \<open>
  C2. Malformed selection: a callback payload with no \<open>|\<close> or with more than one does
  not split into exactly two parts; the handler answers the callback with
  \<open>Invalid selection.\<close> and does nothing else: no engine call, no exception.
\<close>

theorem malformed_selection:
  assumes "count_list call_data (CHR ''|'') \<noteq> 1"
  shows "length (str_split (CHR ''|'') call_data) \<noteq> 2
       \<and> callback_query w call_data = ([AnswerCallback ''Invalid selection.''], None)"
  using assms by (simp add: callback_query_def length_str_split)

theorem malformed_selection_witness:
  "count_list ''bad'' (CHR ''|'') \<noteq> 1
   \<and> callback_query failing_world ''bad'' = ([AnswerCallback ''Invalid selection.''], None)
   \<and> count_list ''a|b|c'' (CHR ''|'') \<noteq> 1
   \<and> callback_query failing_world ''a|b|c'' = ([AnswerCallback ''Invalid selection.''], None)"
  using malformed_selection [of "''bad''" failing_world]
        malformed_selection [of "''a|b|c''" failing_world] by simp

section \<open>The variants the resolver returns\<close>

text \<open>
  C3, as stated, fails: the resolver returns a variant whose descriptor has no
  \<open>vcodec\<close> entry, so a returned variant need not carry a video component.
\<close>

theorem resolver_keeps_absent_codec:
  "snd (extract_formats codecless_world ''https://youtu.be/abc123'')
     = Some ([[(''format_id'', PStr ''18''), (''acodec'', PStr ''mp4a'')]], PStr ''video'')
   \<and> \<not> carries_video [(''format_id'', PStr ''18''), (''acodec'', PStr ''mp4a'')]"
  by (simp add: extract_formats_def codecless_world_def valid_formats_def py_get_def
        carries_video_def)

text \<open>
  C3, amended. When the engine answers, the resolver returns the reported variants
  whose \<open>vcodec\<close> and \<open>acodec\<close> entries both differ from the literal \<open>none\<close>: the variants
  the engine marks audio-only or video-only are excluded, a variant with an absent
  codec entry is kept, and a returned variant whose two codec entries are present as
  strings carries both an audio and a video component.
\<close>

theorem resolver_excludes_none_codecs:
  assumes "extract_info w url = Inr (Some i)"
    and "fs = (case formats i of None \<Rightarrow> [] | Some l \<Rightarrow> l)"
  shows "(\<exists>ttl. snd (extract_formats w url) = Some (valid_formats fs, ttl))
       \<and> (f \<in> set (valid_formats fs) \<longleftrightarrow>
            f \<in> set fs \<and> map_of f ''vcodec'' \<noteq> Some (PStr ''none'')
                     \<and> map_of f ''acodec'' \<noteq> Some (PStr ''none''))
       \<and> (f \<in> set (valid_formats fs) \<and> (\<exists>v. map_of f ''vcodec'' = Some (PStr v))
             \<and> (\<exists>a. map_of f ''acodec'' = Some (PStr a))
           \<longrightarrow> carries_audio f \<and> carries_video f)"
  using assms
  by (auto simp: extract_formats_returned mem_valid_formats carries_audio_def carries_video_def)

theorem resolver_excludes_none_codecs_witness:
  "extract_info demo_world ''https://youtu.be/abc123'' = Inr (Some demo_info)
   \<and> (\<exists>ttl. snd (extract_formats demo_world ''https://youtu.be/abc123'')
         = Some (valid_formats (case formats demo_info of None \<Rightarrow> [] | Some l \<Rightarrow> l), ttl))
   \<and> [(''format_id'', PStr ''22''), (''ext'', PStr ''mp4''), (''height'', PInt 720),
       (''vcodec'', PStr ''avc1''), (''acodec'', PStr ''mp4a'')]
        \<in> set (valid_formats (case formats demo_info of None \<Rightarrow> [] | Some l \<Rightarrow> l))
   \<and> carries_audio [(''format_id'', PStr ''22''), (''ext'', PStr ''mp4''), (''height'', PInt 720),
       (''vcodec'', PStr ''avc1''), (''acodec'', PStr ''mp4a'')]
   \<and> carries_video [(''format_id'', PStr ''22''), (''ext'', PStr ''mp4''), (''height'', PInt 720),
       (''vcodec'', PStr ''avc1''), (''acodec'', PStr ''mp4a'')]"
  using demo_query resolver_excludes_none_codecs [OF demo_query refl,
      of "[(''format_id'', PStr ''22''), (''ext'', PStr ''mp4''), (''height'', PInt 720),
           (''vcodec'', PStr ''avc1''), (''acodec'', PStr ''mp4a'')]"]
  by (simp add: demo_valid_formats)

section \<open>The choices of the prompt\<close>

text \<open>
  C4. Whenever a selection prompt is sent, its keyboard has at most 5 choices, and the
  choices are, one for one and in the same order, the first five variants the resolver
  kept, which appear in the engine-reported list in that same relative order: nothing
  is sorted.
\<close>

theorem choices_bounded_in_order:
  assumes "extract_info w url = Inr (Some i)"
    and "fs = (case formats i of None \<Rightarrow> [] | Some l \<Rightarrow> l)"
    and "SendMessage txt (Some kb) \<in> set (fst (receive_video_link w url))"
  shows "length kb \<le> 5
       \<and> subseq (take 5 (valid_formats fs)) fs
       \<and> map button_text kb = map btn_text (take 5 (valid_formats fs))
       \<and> map (\<lambda>b. Inr (button_data b)) kb
           = map (\<lambda>f. callback_data f url) (take 5 (valid_formats fs))"
proof -
  from prompt_sent [OF assms(3)] assms(1,2)
  have "add_buttons url (take 5 (valid_formats fs)) [] = Inr kb"
    by (auto simp: max_num_formats_def)
  from add_buttons_Inr [OF this]
  have t: "map button_text kb = map btn_text (take 5 (valid_formats fs))"
    and d: "map (\<lambda>b. Inr (button_data b)) kb
              = map (\<lambda>f. callback_data f url) (take 5 (valid_formats fs))"
    by auto
  from t have "length kb = length (take 5 (valid_formats fs))"
    by (rule map_eq_imp_length_eq)
  then have "length kb \<le> 5" by simp
  moreover have "subseq (take 5 (valid_formats fs)) fs"
    by (rule subseq_order.trans [OF prefix_imp_subseq [OF take_is_prefix] subseq_valid_formats])
  ultimately show ?thesis using t d by simp
qed

theorem choices_bounded_in_order_witness:
  "extract_info demo_world ''https://youtu.be/abc123'' = Inr (Some demo_info)
   \<and> SendMessage (''Select quality for '' @ [CHR 0x27] @ ''Demo'' @ [CHR 0x27] @ '':'')
         (Some [InlineKeyboardButton ''360p (mp4)'' ''18|https://youtu.be/abc123'',
                InlineKeyboardButton ''720p (mp4)'' ''22|https://youtu.be/abc123'',
                InlineKeyboardButton ''NAp (webm)'' ''43|https://youtu.be/abc123''])
       \<in> set (fst (receive_video_link demo_world ''https://youtu.be/abc123''))
   \<and> length [InlineKeyboardButton ''360p (mp4)'' ''18|https://youtu.be/abc123'',
              InlineKeyboardButton ''720p (mp4)'' ''22|https://youtu.be/abc123'',
              InlineKeyboardButton ''NAp (webm)'' ''43|https://youtu.be/abc123''] \<le> (5::nat)
   \<and> subseq (take 5 (valid_formats (case formats demo_info of None \<Rightarrow> [] | Some l \<Rightarrow> l)))
        (case formats demo_info of None \<Rightarrow> [] | Some l \<Rightarrow> l)"
  using choices_bounded_in_order [OF demo_query refl demo_prompt_sent] demo_query
        demo_prompt_sent
  by simp

text \<open>
  C9. The prompt text embeds the resolved title, as in \<open>Select quality for 'Demo':\<close>,
  and a label is the height, \<open>p\<close> and the extension in parentheses. The placeholder is
  substituted only when the variant has no \<open>height\<close> entry: for a variant whose height
  the engine reports as \<open>None\<close> the label reads \<open>Nonep (mp4)\<close>.
\<close>

theorem none_height_label:
  "receive_video_link unknown_height_world ''https://youtu.be/abc123'' =
     ([ReplyTo ''Processing your YouTube link, please wait...'',
       EngineQuery ''https://youtu.be/abc123'',
       SendMessage (''Select quality for '' @ [CHR 0x27] @ ''Demo'' @ [CHR 0x27] @ '':'')
         (Some [InlineKeyboardButton ''Nonep (mp4)'' ''22|https://youtu.be/abc123''])],
      None)"
  by (simp add: receive_video_link_def extract_formats_def unknown_height_world_def
        valid_formats_def py_get_def max_num_formats_def callback_data_def py_subscript_def
        token_def btn_text_def py_get_default_def prompt_text_def)

section \<open>Failures of the engine\<close>

text \<open>
  C5. On a payload with exactly one \<open>|\<close>: if the engine's download raises, or the path
  it returns is not on local storage, the handler tells the conversation
  \<open>Failed to download the video.\<close> and stops; a video is sent only for a returned path
  that is on storage; no exception leaves the handler; and the engine is called exactly
  once, without retry.
\<close>

theorem fetch_error_reported:
  assumes "count_list call_data (CHR ''|'') = 1"
    and "format_id = str_split (CHR ''|'') call_data ! 0"
    and "url = str_split (CHR ''|'') call_data ! 1"
  shows "((\<exists>e. download w url format_id = Inl e)
            \<or> (\<exists>p. download w url format_id = Inr p \<and> \<not> path_exists w p)
          \<longrightarrow> callback_query w call_data =
                ([AnswerCallback ''Downloading video...'',
                  SendMessage (inbox_tray @ '' Downloading video, please wait...'') None,
                  EngineDownload url format_id]
                 @ (case download w url format_id of
                      Inl e \<Rightarrow> [Print (''Error downloading video: '' @ exn_str e)]
                    | Inr _ \<Rightarrow> [])
                 @ [SendMessage (cross_mark @ '' Failed to download the video.'') None], None))
       \<and> (SendVideo p \<in> set (fst (callback_query w call_data))
          \<longrightarrow> download w url format_id = Inr p \<and> path_exists w p)
       \<and> snd (callback_query w call_data) = None
       \<and> length (filter is_engine_call (fst (callback_query w call_data))) = 1"
proof -
  have sp: "str_split (CHR ''|'') call_data = [format_id, url]"
    using two_parts [OF assms(1)] assms(2,3) by simp
  show ?thesis
    unfolding callback_query_two [OF sp]
    by (auto simp: Let_def download_failed_def split: sum.splits)
qed

theorem fetch_error_reported_witness:
  "count_list ''22|https://youtu.be/missing'' (CHR ''|'') = 1
   \<and> download failing_world ''https://youtu.be/missing'' ''22'' = Inl (OtherError ''unreachable'')
   \<and> callback_query failing_world ''22|https://youtu.be/missing'' =
       ([AnswerCallback ''Downloading video...'',
         SendMessage (inbox_tray @ '' Downloading video, please wait...'') None,
         EngineDownload ''https://youtu.be/missing'' ''22'',
         Print ''Error downloading video: unreachable'',
         SendMessage (cross_mark @ '' Failed to download the video.'') None], None)
   \<and> count_list ''22|https://youtu.be/abc123'' (CHR ''|'') = 1
   \<and> SendVideo ''downloads/Demo.mp4''
        \<in> set (fst (callback_query demo_world ''22|https://youtu.be/abc123''))
   \<and> download demo_world ''https://youtu.be/abc123'' ''22'' = Inr ''downloads/Demo.mp4''
   \<and> path_exists demo_world ''downloads/Demo.mp4''"
proof -
  have d: "download failing_world ''https://youtu.be/missing'' ''22''
             = Inl (OtherError ''unreachable'')"
    by (simp add: failing_world_def)
  have s1: "str_split (CHR ''|'') ''22|https://youtu.be/missing''
              = [''22'', ''https://youtu.be/missing'']"
    by simp
  have s2: "str_split (CHR ''|'') ''22|https://youtu.be/abc123''
              = [''22'', ''https://youtu.be/abc123'']"
    by simp
  have v: "SendVideo ''downloads/Demo.mp4''
        \<in> set (fst (callback_query demo_world ''22|https://youtu.be/abc123''))"
    by (simp add: callback_query_two [OF s2] demo_world_def)
  have c1: "count_list ''22|https://youtu.be/missing'' (CHR ''|'') = 1" by simp
  have c2: "count_list ''22|https://youtu.be/abc123'' (CHR ''|'') = 1" by simp
  from fetch_error_reported [OF c1 refl refl, where w = failing_world]
       fetch_error_reported [OF c2 refl refl, where w = demo_world
         and p = "''downloads/Demo.mp4''"]
       d v c1 c2
  show ?thesis by (simp add: s1 s2)
qed

text \<open>
  C6. An exception of the engine never leaves the resolver: the resolver prints it and
  returns its error result. When the engine raises, or the resolver returns its error
  result or an empty list of variants, the link handler, after its acknowledgement and
  the engine query, replies \<open>Failed to extract video formats. Please try again.\<close> and
  does nothing more: between the query and the reply there are only lines printed by
  the resolver, and no exception leaves the handler. The failed and the empty case get
  the same reply.
\<close>

theorem resolver_failure_reported:
  "(extract_info w url = Inl e
      \<longrightarrow> extract_formats w url =
            ([EngineQuery url, Print (''Error extracting formats: '' @ exn_str e)], None))
   \<and> ((\<exists>x. extract_info w url = Inl x)
        \<or> snd (extract_formats w url) = None
        \<or> (\<exists>ttl. snd (extract_formats w url) = Some ([], ttl))
      \<longrightarrow> (\<exists>log. set log \<subseteq> range Print
             \<and> receive_video_link w url =
                 ([ReplyTo ''Processing your YouTube link, please wait...'', EngineQuery url]
                  @ log
                  @ [ReplyTo (cross_mark @ '' Failed to extract video formats. Please try again.'')],
                  None)))"
proof -
  have raised: "extract_formats w url =
            ([EngineQuery url, Print (''Error extracting formats: '' @ exn_str x)], None)"
    if "extract_info w url = Inl x" for x
    using that by (simp add: extract_formats_def)
  have "\<exists>log. fst (extract_formats w url) = EngineQuery url # log \<and> set log \<subseteq> range Print"
    by (simp add: extract_formats_def split: sum.splits option.splits)
  then obtain log where l: "fst (extract_formats w url) = EngineQuery url # log"
    and p: "set log \<subseteq> range Print"
    by blast
  have notice: "\<exists>log. set log \<subseteq> range Print
            \<and> receive_video_link w url =
                ([ReplyTo ''Processing your YouTube link, please wait...'', EngineQuery url]
                 @ log
                 @ [ReplyTo (cross_mark @ '' Failed to extract video formats. Please try again.'')],
                 None)"
    if "snd (extract_formats w url) = None
         \<or> (\<exists>ttl. snd (extract_formats w url) = Some ([], ttl))"
  proof -
    from that
    have "receive_video_link w url =
          (ReplyTo ''Processing your YouTube link, please wait...'' # fst (extract_formats w url)
           @ [ReplyTo extraction_failed], None)"
      by (auto simp: receive_video_link_def Let_def split: prod.splits)
    with l p show ?thesis
      by (intro exI [of _ log]) (simp add: extraction_failed_def)
  qed
  have "snd (extract_formats w url) = None" if "\<exists>x. extract_info w url = Inl x"
    using that raised by auto
  with notice raised show ?thesis by blast
qed

theorem resolver_failure_reported_witness:
  "extract_info failing_world ''https://youtu.be/abc123'' = Inl (OtherError ''unsupported URL'')
   \<and> extract_formats failing_world ''https://youtu.be/abc123''
       = ([EngineQuery ''https://youtu.be/abc123'',
           Print ''Error extracting formats: unsupported URL''], None)
   \<and> receive_video_link failing_world ''https://youtu.be/abc123'' =
       ([ReplyTo ''Processing your YouTube link, please wait...'',
         EngineQuery ''https://youtu.be/abc123'',
         Print ''Error extracting formats: unsupported URL'',
         ReplyTo (cross_mark @ '' Failed to extract video formats. Please try again.'')], None)
   \<and> snd (extract_formats audio_only_world ''https://youtu.be/abc123'') = Some ([], PStr ''Demo'')
   \<and> receive_video_link audio_only_world ''https://youtu.be/abc123'' =
       ([ReplyTo ''Processing your YouTube link, please wait...'',
         EngineQuery ''https://youtu.be/abc123'',
         ReplyTo (cross_mark @ '' Failed to extract video formats. Please try again.'')], None)"
proof -
  have q: "extract_info failing_world ''https://youtu.be/abc123''
             = Inl (OtherError ''unsupported URL'')"
    by (simp add: failing_world_def)
  have a: "extract_formats audio_only_world ''https://youtu.be/abc123''
             = ([EngineQuery ''https://youtu.be/abc123''], Some ([], PStr ''Demo''))"
    by (simp add: extract_formats_def audio_only_world_def valid_formats_def py_get_def)
  from resolver_failure_reported [of failing_world "''https://youtu.be/abc123''"
         "OtherError ''unsupported URL''"] q
  have f: "extract_formats failing_world ''https://youtu.be/abc123''
             = ([EngineQuery ''https://youtu.be/abc123'',
                 Print ''Error extracting formats: unsupported URL''], None)"
    and "\<exists>log. set log \<subseteq> range Print
            \<and> receive_video_link failing_world ''https://youtu.be/abc123'' =
                ([ReplyTo ''Processing your YouTube link, please wait...'',
                  EngineQuery ''https://youtu.be/abc123'']
                 @ log
                 @ [ReplyTo (cross_mark @ '' Failed to extract video formats. Please try again.'')],
                 None)"
    by auto
  moreover from resolver_failure_reported [of audio_only_world "''https://youtu.be/abc123''"] a
  have "\<exists>log. set log \<subseteq> range Print
            \<and> receive_video_link audio_only_world ''https://youtu.be/abc123'' =
                ([ReplyTo ''Processing your YouTube link, please wait...'',
                  EngineQuery ''https://youtu.be/abc123'']
                 @ log
                 @ [ReplyTo (cross_mark @ '' Failed to extract video formats. Please try again.'')],
                 None)"
    by auto
  ultimately show ?thesis
    using q a by (auto simp: receive_video_link_def extraction_failed_def)
qed

section \<open>The link classifier accepts more than the supported hosts\<close>

text \<open>
  C7, as stated, fails in both directions: \<open>youtube/x\<close> is accepted although it is on
  neither supported hostname, and \<open>youtu.be/\<close> followed by a line feed is rejected
  although a character follows the slash.
\<close>

theorem classifier_not_exact:
  "is_youtube_link ''youtube/x'' = Some ''youtube/x''
   \<and> \<not> spec_video_link ''youtube/x''
   \<and> is_youtube_link (''youtu.be/'' @ [CHR 0x0A]) = None
   \<and> spec_video_link (''youtu.be/'' @ [CHR 0x0A])"
  by (simp add: is_youtube_link_def re_match_def youtube_regex_def newline_def
        spec_video_link_def)

text \<open>
  C7, amended. The classifier's result is truthy for exactly the strings that start
  with an optional \<open>http://\<close> or \<open>https://\<close>, an optional \<open>www.\<close>, one of
  \<open>youtube.com\<close>, \<open>youtu.be\<close> and \<open>youtube\<close>, a slash, and one character that is not a
  line feed; for every other string it is \<open>None\<close>, a falsy result, and handling the
  message makes no call on the resolver's engine. The match is anchored at the start.
\<close>

theorem classifier_accepts_exactly:
  "(truthy (is_youtube_link txt) \<longleftrightarrow> permissive_video_link txt)
   \<and> (\<not> permissive_video_link txt
        \<longrightarrow> is_youtube_link txt = None
          \<and> filter is_engine_call (fst (handle_message command_of w txt)) = [])"
proof -
  have "\<not> truthy (is_youtube_link txt)
          \<longrightarrow> filter is_engine_call (fst (handle_message command_of w txt)) = []"
    by (simp add: handle_message_def send_welcome_def stop_bot_def)
  moreover have "truthy (is_youtube_link txt) \<longleftrightarrow> permissive_video_link txt"
    by (rule truthy_is_youtube_link)
  moreover have "\<not> truthy (is_youtube_link txt) \<longrightarrow> is_youtube_link txt = None"
    by (simp add: truthy_def)
  ultimately show ?thesis by blast
qed

theorem classifier_accepts_exactly_witness:
  "truthy (is_youtube_link ''https://youtu.be/abc123'')
   \<and> permissive_video_link ''https://youtu.be/abc123''
   \<and> \<not> permissive_video_link ''see https://youtu.be/abc123''
   \<and> is_youtube_link ''see https://youtu.be/abc123'' = None
   \<and> filter is_engine_call
        (fst (handle_message slash_command demo_world ''see https://youtu.be/abc123'')) = []"
proof -
  have "permissive_video_link ''https://youtu.be/abc123''"
    by (simp add: permissive_video_link_def newline_def)
  moreover have "\<not> permissive_video_link ''see https://youtu.be/abc123''"
    by (simp add: permissive_video_link_def)
  ultimately show ?thesis
    using classifier_accepts_exactly [of "''https://youtu.be/abc123''" slash_command demo_world]
          classifier_accepts_exactly [of "''see https://youtu.be/abc123''" slash_command demo_world]
    by simp
qed

text \<open>
  C10, as stated, fails for one character: \<open>youtube/\<close> followed by a line feed is a
  string that begins with the bare host, a slash and a character, and it is rejected.
\<close>

theorem bare_host_line_feed_rejected:
  "is_youtube_link (''youtube/'' @ [CHR 0x0A]) = None"
  by (simp add: is_youtube_link_def re_match_def youtube_regex_def newline_def)

text \<open>
  C10, amended. Every string that begins with the bare host \<open>youtube\<close>, a slash and a
  character that is not a line feed, such as \<open>youtube/abc\<close>, is classified as a video
  link although it is not on a supported platform domain.
\<close>

theorem bare_host_accepted:
  assumes "c \<noteq> CHR 0x0A"
  shows "truthy (is_youtube_link (''youtube/'' @ c # rest))
       \<and> \<not> spec_video_link (''youtube/'' @ c # rest)"
proof -
  have "permissive_video_link (''youtube/'' @ c # rest)"
    using assms by (simp add: permissive_video_link_def newline_def)
  then have "truthy (is_youtube_link (''youtube/'' @ c # rest))"
    by (simp only: truthy_is_youtube_link)
  moreover have "\<not> spec_video_link (''youtube/'' @ c # rest)"
    by (simp add: spec_video_link_def)
  ultimately show ?thesis by simp
qed

theorem bare_host_accepted_witness:
  "CHR ''a'' \<noteq> CHR 0x0A
   \<and> truthy (is_youtube_link ''youtube/abc'')
   \<and> \<not> spec_video_link ''youtube/abc''"
  using bare_host_accepted [of "CHR ''a''" "''bc''"] by simp

section \<open>Startup\<close>

text \<open>
  C8. Startup exits with code 1 when the credential is missing (unset or empty), and
  then no network check is made: a network check is made only with the credential
  present. When the connectivity check is made and fails with a connection error,
  startup exits with code 1; when it fails with any other error, with code 2. With the
  credential present the check is made as soon as the client object is built; a
  constructor that refuses the token ends startup with code 1 before any request.
\<close>

theorem startup_exit_codes:
  "((bot_token env = None \<or> bot_token env = Some [])
       \<longrightarrow> snd (startup env) = Exited 1 \<and> (\<forall>u. HttpGet u \<notin> set (fst (startup env))))
   \<and> (HttpGet u \<in> set (fst (startup env)) \<and> api_get env = RaisedConnectionError
       \<longrightarrow> snd (startup env) = Exited 1)
   \<and> (HttpGet u \<in> set (fst (startup env)) \<and> api_get env = RaisedOther e
       \<longrightarrow> snd (startup env) = Exited 2)
   \<and> (bot_token env = Some t \<and> t \<noteq> [] \<and> new_bot env t = Inr ()
       \<longrightarrow> (\<exists>rest. fst (startup env) = HttpGet ''https://api.telegram.org'' # rest))
   \<and> (bot_token env = Some t \<and> t \<noteq> [] \<and> new_bot env t = Inl x
       \<longrightarrow> startup env = ([], Exited 1))"
  by (auto simp: startup_def missing_token_def check_internet_def
           split: get_outcome.splits option.splits sum.splits if_splits)

theorem startup_exit_codes_witness:
  "startup \<lparr>bot_token = None, new_bot = colon_check, api_get = Responded\<rparr>
     = ([Print (cross_mark @ '' BOT_TOKEN is missing! Check your .env file.'')], Exited 1)
   \<and> snd (startup \<lparr>bot_token = Some [], new_bot = colon_check, api_get = Responded\<rparr>) = Exited 1
   \<and> HttpGet ''https://api.telegram.org''
        \<in> set (fst (startup \<lparr>bot_token = Some ''123:abc'', new_bot = colon_check,
                              api_get = RaisedConnectionError\<rparr>))
   \<and> snd (startup \<lparr>bot_token = Some ''123:abc'', new_bot = colon_check,
                    api_get = RaisedConnectionError\<rparr>) = Exited 1
   \<and> HttpGet ''https://api.telegram.org''
        \<in> set (fst (startup \<lparr>bot_token = Some ''123:abc'', new_bot = colon_check,
                              api_get = RaisedOther (OtherError ''timed out'')\<rparr>))
   \<and> snd (startup \<lparr>bot_token = Some ''123:abc'', new_bot = colon_check,
                    api_get = RaisedOther (OtherError ''timed out'')\<rparr>) = Exited 2
   \<and> startup \<lparr>bot_token = Some ''abc'', new_bot = colon_check,
               api_get = RaisedOther (OtherError ''timed out'')\<rparr> = ([], Exited 1)"
proof -
  have ok: "colon_check ''123:abc'' = Inr ()"
    by (simp add: colon_check_def)
  have refused: "colon_check ''abc'' = Inl (OtherError ''Token must contain a colon'')"
    by (simp add: colon_check_def)
  have g1: "HttpGet ''https://api.telegram.org''
        \<in> set (fst (startup \<lparr>bot_token = Some ''123:abc'', new_bot = colon_check,
                              api_get = RaisedConnectionError\<rparr>))"
    by (simp add: startup_def ok check_internet_def)
  have g2: "HttpGet ''https://api.telegram.org''
        \<in> set (fst (startup \<lparr>bot_token = Some ''123:abc'', new_bot = colon_check,
                              api_get = RaisedOther (OtherError ''timed out'')\<rparr>))"
    by (simp add: startup_def ok check_internet_def)
  show ?thesis
    using startup_exit_codes [of "\<lparr>bot_token = None, new_bot = colon_check, api_get = Responded\<rparr>"]
          startup_exit_codes [of "\<lparr>bot_token = Some [], new_bot = colon_check, api_get = Responded\<rparr>"]
          startup_exit_codes [where env = "\<lparr>bot_token = Some ''123:abc'', new_bot = colon_check,
                                             api_get = RaisedConnectionError\<rparr>"
                                 and u = "''https://api.telegram.org''"]
          startup_exit_codes [where env = "\<lparr>bot_token = Some ''123:abc'', new_bot = colon_check,
                                             api_get = RaisedOther (OtherError ''timed out'')\<rparr>"
                                 and u = "''https://api.telegram.org''"
                                 and e = "OtherError ''timed out''"]
          startup_exit_codes [where env = "\<lparr>bot_token = Some ''abc'', new_bot = colon_check,
                                             api_get = RaisedOther (OtherError ''timed out'')\<rparr>"
                                 and t = "''abc''"
                                 and x = "OtherError ''Token must contain a colon''"]
          g1 g2 refused
    by (simp add: startup_def missing_token_def)
qed

end
